theory Spec2Isabelle
  imports Complex_Main "HOL-Library.Word" "HOL-Library.Sublist"
begin

section \<open>Data model\<close>

text \<open>
  A shallow embedding of the IntaSend Go client: client construction
  (\<^verbatim>\<open>intasend.go\<close>, the option functions), the shared request executor
  (\<^verbatim>\<open>http.go\<close>) and the resource operations on which properties are stated
  (\<^verbatim>\<open>wallet.go\<close>, \<^verbatim>\<open>collection.go\<close>).

  \<^item> \<^verbatim>\<open>time.Duration\<close> is an \<^verbatim>\<open>int64\<close> count of nanoseconds: a 64-bit word, read
    with \<open>sint\<close>; multiplication and shifts wrap as in Go.
  \<^item> Go's \<^verbatim>\<open>int\<close> (attempt counter, retry budget, status code) is \<open>int\<close>. The counter
    ranges over \<open>0 .. maxRetries + 1\<close>; the one place where the width of \<^verbatim>\<open>int\<close> could
    show, \<^verbatim>\<open>attempt++\<close> at the largest \<^verbatim>\<open>int\<close>, lies beyond \<open>2^31\<close> round trips and is
    left out.
  \<^item> Strings and byte slices are \<open>string\<close>.
  \<^item> The outside world (transport, cancellation signal, the JSON decoder of the standard
    library) is a record of functions, \<open>env\<close>; what the executor does to the world
    (requests sent, timers armed, debug log lines) is recorded in \<open>world\<close>.
\<close>

type_synonym duration = "64 word"

datatype float64 = Finite real | NaN | PosInf | NegInf

datatype json = JStr string | JNum real | JBool bool

type_synonym json_object = "(string \<times> json) list"

subsection \<open>Errors\<close>

record APIError =
  HTTPStatusCode :: int
  Code :: string
  Message :: string
  Detail :: string
  Errors :: "string \<rightharpoonup> string list"
  RequestID :: string

datatype ctx_error = Canceled | DeadlineExceeded

datatype error =
    ErrMissingPublishableKey
  | ErrMissingSecretKey
  | ErrInvalidEnvironment
  | ErrNoKeysProvided
  | OptionError string
  | MarshalError string
  | CreateRequestError string
  | ContextError ctx_error
  | NetworkError string string
  | APIErr APIError
  | UnmarshalError string

subsection \<open>The client\<close>

record http_Client =
  Timeout :: duration

record Client =
  publishableKey :: string
  secretKey :: string
  baseURL :: string
  httpClient :: "http_Client option"
  timeout :: duration
  maxRetries :: int
  retryWait :: duration
  userAgent :: string
  debug :: bool

definition SandboxBaseURL :: string where
  "SandboxBaseURL = ''https://sandbox.intasend.com/api/v1''"

definition ProductionBaseURL :: string where
  "ProductionBaseURL = ''https://payment.intasend.com/api/v1''"

definition Second :: duration where
  "Second = 1000000000"

definition DefaultTimeout :: duration where
  "DefaultTimeout = 30 * Second"

definition DefaultMaxRetries :: int where
  "DefaultMaxRetries = 3"

definition DefaultRetryWait :: duration where
  "DefaultRetryWait = 1 * Second"

definition Version :: string where
  "Version = ''1.0.0''"

subsection \<open>Options\<close>

text \<open>An option is a function on the client under construction that may fail.\<close>

type_synonym ClientOption = "Client \<Rightarrow> error + Client"

definition WithPublishableKey :: "string \<Rightarrow> ClientOption" where
  "WithPublishableKey key c = Inr (c\<lparr>publishableKey := key\<rparr>)"

definition WithSecretKey :: "string \<Rightarrow> ClientOption" where
  "WithSecretKey key c = Inr (c\<lparr>secretKey := key\<rparr>)"

definition WithBaseURL :: "string \<Rightarrow> ClientOption" where
  "WithBaseURL url c = Inr (c\<lparr>baseURL := url\<rparr>)"

definition WithHTTPClient :: "http_Client option \<Rightarrow> ClientOption" where
  "WithHTTPClient client c = Inr (c\<lparr>httpClient := client\<rparr>)"

definition WithTimeout :: "duration \<Rightarrow> ClientOption" where
  "WithTimeout t c = Inr (c\<lparr>timeout := t\<rparr>)"

definition WithRetry :: "int \<Rightarrow> duration \<Rightarrow> ClientOption" where
  "WithRetry n waitT c = Inr (c\<lparr>maxRetries := n, retryWait := waitT\<rparr>)"

definition WithDebug :: "bool \<Rightarrow> ClientOption" where
  "WithDebug d c = Inr (c\<lparr>debug := d\<rparr>)"

definition WithUserAgent :: "string \<Rightarrow> ClientOption" where
  "WithUserAgent ua c = Inr (c\<lparr>userAgent := ua\<rparr>)"

definition WithSandbox :: ClientOption where
  "WithSandbox c = Inr (c\<lparr>baseURL := SandboxBaseURL\<rparr>)"

definition WithProduction :: ClientOption where
  "WithProduction c = Inr (c\<lparr>baseURL := ProductionBaseURL\<rparr>)"

subsection \<open>Construction\<close>

definition HasPrefix :: "string \<Rightarrow> string \<Rightarrow> bool" where
  "HasPrefix s p = prefix p s"

definition detectEnvironment :: "Client \<Rightarrow> Client" where
  "detectEnvironment c =
     (if HasPrefix (publishableKey c) ''ISPubKey_test'' then c\<lparr>baseURL := SandboxBaseURL\<rparr>
      else if HasPrefix (publishableKey c) ''ISPubKey_live'' then c\<lparr>baseURL := ProductionBaseURL\<rparr>
      else if HasPrefix (secretKey c) ''ISSecretKey_test'' then c\<lparr>baseURL := SandboxBaseURL\<rparr>
      else if HasPrefix (secretKey c) ''ISSecretKey_live'' then c\<lparr>baseURL := ProductionBaseURL\<rparr>
      else c)"

definition initialClient :: Client where
  "initialClient =
     \<lparr>publishableKey = [], secretKey = [], baseURL = [], httpClient = None,
      timeout = DefaultTimeout, maxRetries = DefaultMaxRetries,
      retryWait = DefaultRetryWait, userAgent = ''intasend-go/'' @ Version,
      debug = False\<rparr>"

fun applyOptions :: "ClientOption list \<Rightarrow> Client \<Rightarrow> error + Client" where
  "applyOptions [] c = Inr c"
| "applyOptions (opt # opts) c =
     (case opt c of Inl err \<Rightarrow> Inl err | Inr c' \<Rightarrow> applyOptions opts c')"

text \<open>
  The second half of \<^verbatim>\<open>New\<close>, after the options have run: key validation, environment
  detection, the default HTTP client. The service objects of the source hold nothing but a
  pointer back to the client, so the operations below take the client itself.
\<close>

definition finishClient :: "Client \<Rightarrow> error + Client" where
  "finishClient c =
     (if publishableKey c = [] \<and> secretKey c = [] then Inl ErrNoKeysProvided
      else
        let c1 = (if baseURL c = [] then detectEnvironment c else c) in
        if baseURL c1 = [] then Inl ErrInvalidEnvironment
        else
          Inr (if httpClient c1 = None
               then c1\<lparr>httpClient := Some \<lparr>Timeout = timeout c1\<rparr>\<rparr>
               else c1))"

definition New :: "ClientOption list \<Rightarrow> error + Client" where
  "New opts =
     (case applyOptions opts initialClient of
        Inl err \<Rightarrow> Inl err
      | Inr c \<Rightarrow> finishClient c)"

definition IsSandbox :: "Client \<Rightarrow> bool" where
  "IsSandbox c \<longleftrightarrow> baseURL c = SandboxBaseURL"

definition IsProduction :: "Client \<Rightarrow> bool" where
  "IsProduction c \<longleftrightarrow> baseURL c = ProductionBaseURL"

section \<open>Request bodies and their JSON encoding\<close>

text \<open>
  The request structs of \<^verbatim>\<open>wallet.go\<close> and \<^verbatim>\<open>collection.go\<close>. Go scopes field names
  by struct; here each record's fields carry a short prefix.
\<close>

type_synonym WalletType = string

definition WalletTypeWorking :: WalletType where
  "WalletTypeWorking = ''WORKING''"

record CreateWalletRequest =
  cw_Currency :: string
  cw_Label :: string
  cw_WalletType :: WalletType
  cw_CanDisburse :: bool

record STKPushRequest =
  stk_PhoneNumber :: string
  stk_Amount :: float64
  stk_APIRef :: string
  stk_Name :: string
  stk_Email :: string
  stk_WalletID :: string

record stkPushRequestBody =
  sb_PublicKey :: string
  sb_PhoneNumber :: string
  sb_Amount :: float64
  sb_APIRef :: string
  sb_Name :: string
  sb_Email :: string
  sb_WalletID :: string
  sb_Method :: string
  sb_Currency :: string

record FundMPesaRequest =
  fm_WalletID :: string
  fm_PhoneNumber :: string
  fm_Amount :: float64
  fm_Email :: string
  fm_APIRef :: string

record fundMPesaBody =
  fb_PublicKey :: string
  fb_WalletID :: string
  fb_PhoneNumber :: string
  fb_Amount :: float64
  fb_Email :: string
  fb_APIRef :: string
  fb_Method :: string
  fb_Currency :: string

text \<open>
  A value handed to the executor as \<^verbatim>\<open>cfg.body\<close>. \<open>OtherBody r\<close> stands for any value
  of another type, given by what \<^verbatim>\<open>json.Marshal\<close> returns for it.
\<close>

datatype body =
    CreateWalletBody CreateWalletRequest
  | STKPushBody stkPushRequestBody
  | FundMPesaBody fundMPesaBody
  | OtherBody "string + json_object"

text \<open>
  \<^verbatim>\<open>json.Marshal\<close> on these structs, following the field tags: fields in declaration
  order, a field tagged \<^verbatim>\<open>omitempty\<close> left out when it is the empty string or
  \<^verbatim>\<open>false\<close>, and an error for a float that is not finite. The encoded bytes are
  represented by the JSON object they spell; strings are taken to be valid UTF-8, which
  the encoder writes as they are.
\<close>

definition strField :: "string \<Rightarrow> string \<Rightarrow> json_object" where
  "strField name v = [(name, JStr v)]"

definition strFieldOmitEmpty :: "string \<Rightarrow> string \<Rightarrow> json_object" where
  "strFieldOmitEmpty name v = (if v = [] then [] else [(name, JStr v)])"

definition boolFieldOmitEmpty :: "string \<Rightarrow> bool \<Rightarrow> json_object" where
  "boolFieldOmitEmpty name v = (if v then [(name, JBool True)] else [])"

fun floatField :: "string \<Rightarrow> float64 \<Rightarrow> string + json_object" where
  "floatField name (Finite x) = Inr [(name, JNum x)]"
| "floatField name NaN = Inl ''json: unsupported value: NaN''"
| "floatField name PosInf = Inl ''json: unsupported value: +Inf''"
| "floatField name NegInf = Inl ''json: unsupported value: -Inf''"

fun json_Marshal :: "body \<Rightarrow> string + json_object" where
  "json_Marshal (CreateWalletBody r) =
     Inr (strField ''currency'' (cw_Currency r)
        @ strField ''label'' (cw_Label r)
        @ strFieldOmitEmpty ''wallet_type'' (cw_WalletType r)
        @ boolFieldOmitEmpty ''can_disburse'' (cw_CanDisburse r))"
| "json_Marshal (STKPushBody b) =
     (case floatField ''amount'' (sb_Amount b) of
        Inl err \<Rightarrow> Inl err
      | Inr amount \<Rightarrow>
          Inr (strFieldOmitEmpty ''public_key'' (sb_PublicKey b)
             @ strField ''phone_number'' (sb_PhoneNumber b)
             @ amount
             @ strFieldOmitEmpty ''api_ref'' (sb_APIRef b)
             @ strFieldOmitEmpty ''name'' (sb_Name b)
             @ strFieldOmitEmpty ''email'' (sb_Email b)
             @ strFieldOmitEmpty ''wallet_id'' (sb_WalletID b)
             @ strField ''method'' (sb_Method b)
             @ strField ''currency'' (sb_Currency b)))"
| "json_Marshal (FundMPesaBody b) =
     (case floatField ''amount'' (fb_Amount b) of
        Inl err \<Rightarrow> Inl err
      | Inr amount \<Rightarrow>
          Inr (strFieldOmitEmpty ''public_key'' (fb_PublicKey b)
             @ strField ''wallet_id'' (fb_WalletID b)
             @ strField ''phone_number'' (fb_PhoneNumber b)
             @ amount
             @ strFieldOmitEmpty ''email'' (fb_Email b)
             @ strFieldOmitEmpty ''api_ref'' (fb_APIRef b)
             @ strField ''method'' (fb_Method b)
             @ strField ''currency'' (fb_Currency b)))"
| "json_Marshal (OtherBody r) = r"

section \<open>The request executor\<close>

subsection \<open>Requests, the world and the environment\<close>

definition headerAuthorization :: string where
  "headerAuthorization = ''Authorization''"

definition headerContentType :: string where
  "headerContentType = ''Content-Type''"

definition headerPublicAPIKey :: string where
  "headerPublicAPIKey = ''X-IntaSend-Public-API-Key''"

definition headerIntaSendPublicKey :: string where
  "headerIntaSendPublicKey = ''INTASEND_PUBLIC_API_KEY''"

definition headerUserAgent :: string where
  "headerUserAgent = ''User-Agent''"

definition contentTypeJSON :: string where
  "contentTypeJSON = ''application/json''"

definition MethodGet :: string where
  "MethodGet = ''GET''"

definition MethodPost :: string where
  "MethodPost = ''POST''"

text \<open>
  \<open>result\<close> is the pointer the response is decoded into: \<open>None\<close> is \<^verbatim>\<open>nil\<close>,
  \<open>Some dec\<close> a target whose shape accepts exactly the bodies on which \<open>dec\<close> returns
  \<open>Inr\<close> (\<open>Inl\<close> carries the decoder's error text).
\<close>

record 'r requestConfig =
  "method" :: string
  path :: string
  body :: "body option"
  result :: "(string \<Rightarrow> string + 'r) option"
  requiresAuth :: bool
  publicKeyOnly :: bool

record http_Request =
  req_Method :: string
  req_URL :: string
  req_Body :: "json_object option"
  req_Header :: "string \<rightharpoonup> string"

text \<open>What one send yields: a failed \<^verbatim>\<open>Do\<close>, a failed body read, or status and body.\<close>

datatype round_trip =
    DoFailed string
  | ReadFailed string
  | Responded int string

record APIErrorFields =
  json_code :: string
  json_message :: string
  json_detail :: string
  json_errors :: "string \<rightharpoonup> string list"
  json_request_id :: string

text \<open>
  The environment of one call.
  \<^item> \<open>roundTrip k req\<close>: the outcome of \<^verbatim>\<open>httpClient.Do\<close> and \<^verbatim>\<open>io.ReadAll\<close> for
    \<open>req\<close> when \<open>k\<close> requests were sent before it.
  \<^item> \<open>ctxDone n\<close>: whether the \<^verbatim>\<open>select\<close> before attempt \<open>n\<close> takes the
    \<^verbatim>\<open>ctx.Done()\<close> branch, and then the value of \<^verbatim>\<open>ctx.Err()\<close>.
  \<^item> \<open>newRequest m u\<close>: the error of \<^verbatim>\<open>http.NewRequestWithContext\<close> for method \<open>m\<close>
    and URL \<open>u\<close>, if any.
  \<^item> \<open>unmarshalAPIError b\<close>: \<^verbatim>\<open>json.Unmarshal\<close> of \<open>b\<close> into a fresh \<^verbatim>\<open>APIError\<close>:
    the fields it leaves in the struct, and whether it returned an error. The status code
    is tagged \<^verbatim>\<open>json:"-"\<close> and is not among them.
\<close>

record env =
  roundTrip :: "nat \<Rightarrow> http_Request \<Rightarrow> round_trip"
  ctxDone :: "int \<Rightarrow> ctx_error option"
  newRequest :: "string \<Rightarrow> string \<Rightarrow> string option"
  unmarshalAPIError :: "string \<Rightarrow> APIErrorFields \<times> bool"

text \<open>
  The world records, in order, every request handed to \<^verbatim>\<open>httpClient.Do\<close> (\<open>sent\<close>),
  every duration a retry timer was armed with (\<open>waits\<close>) and every debug line
  (\<open>logs\<close>, written only when the client's debug flag is set).
\<close>

datatype log_event =
    LogRetry int duration
  | LogRequest string string
  | LogRequestBody json_object
  | LogNetworkError string
  | LogReadError string
  | LogStatus int
  | LogResponseBody string

record world =
  sent :: "http_Request list"
  waits :: "duration list"
  logs :: "log_event list"

definition logf :: "Client \<Rightarrow> log_event \<Rightarrow> world \<Rightarrow> world" where
  "logf c ev w = (if debug c then w\<lparr>logs := logs w @ [ev]\<rparr> else w)"

subsection \<open>One attempt\<close>

text \<open>
  \<^verbatim>\<open>c.retryWait * time.Duration(1<<(attempt-1))\<close>: the constant 1 takes the type
  \<^verbatim>\<open>time.Duration\<close>, so shift and product are 64-bit. Only used for \<open>attempt > 0\<close>.
\<close>

definition waitTime :: "Client \<Rightarrow> int \<Rightarrow> duration" where
  "waitTime c attempt = retryWait c * push_bit (nat (attempt - 1)) 1"

definition buildRequest ::
  "Client \<Rightarrow> 'r requestConfig \<Rightarrow> string \<Rightarrow> json_object option \<Rightarrow> http_Request" where
  "buildRequest c cfg url bodyBytes =
     (let h0 = Map.empty(headerContentType \<mapsto> contentTypeJSON, headerUserAgent \<mapsto> userAgent c);
          h1 = (if publishableKey c \<noteq> []
                then h0(headerPublicAPIKey \<mapsto> publishableKey c,
                        headerIntaSendPublicKey \<mapsto> publishableKey c)
                else h0);
          h2 = (if requiresAuth cfg \<and> secretKey c \<noteq> []
                then h1(headerAuthorization \<mapsto> ''Bearer '' @ secretKey c)
                else h1)
      in \<lparr>req_Method = method cfg, req_URL = url, req_Body = bodyBytes, req_Header = h2\<rparr>)"

text \<open>Lines 116 to 119: the error value built from a response outside the 2xx range.\<close>

definition newAPIError :: "env \<Rightarrow> int \<Rightarrow> string \<Rightarrow> APIError" where
  "newAPIError E status respBody =
     (let (f, failed) = unmarshalAPIError E respBody;
          apiErr = \<lparr>HTTPStatusCode = status, Code = json_code f, Message = json_message f,
                    Detail = json_detail f, Errors = json_errors f,
                    RequestID = json_request_id f\<rparr>
      in if failed then apiErr\<lparr>Message := respBody\<rparr> else apiErr)"

text \<open>
  The body of the retry loop. \<open>Return r\<close> is a \<^verbatim>\<open>return\<close> out of \<^verbatim>\<open>doRequest\<close>,
  \<open>Continue e\<close> the assignment \<^verbatim>\<open>lastErr = e\<close> followed by \<^verbatim>\<open>continue\<close>.
  A successful call yields \<open>Inr (Some v)\<close> when a body was decoded into the result and
  \<open>Inr None\<close> when the result was left untouched.
\<close>

datatype 'r step = Return "error + 'r option" | Continue error

definition attemptOnce ::
  "env \<Rightarrow> Client \<Rightarrow> 'r requestConfig \<Rightarrow> string \<Rightarrow> json_object option \<Rightarrow> int \<Rightarrow> world
     \<Rightarrow> 'r step \<times> world" where
  "attemptOnce E c cfg url bodyBytes attempt w =
     (let w1 = (if attempt > 0
                then (logf c (LogRetry attempt (waitTime c attempt)) w)
                       \<lparr>waits := waits w @ [waitTime c attempt]\<rparr>
                else w)
      in case (if attempt > 0 then ctxDone E attempt else None) of
           Some ce \<Rightarrow> (Return (Inl (ContextError ce)), w1)
         | None \<Rightarrow>
            (case newRequest E (method cfg) url of
               Some msg \<Rightarrow> (Return (Inl (CreateRequestError msg)), w1)
             | None \<Rightarrow>
                (let req = buildRequest c cfg url bodyBytes;
                     w2 = logf c (LogRequest (method cfg) url) w1;
                     w3 = (case bodyBytes of None \<Rightarrow> w2
                           | Some b \<Rightarrow> logf c (LogRequestBody b) w2);
                     w4 = w3\<lparr>sent := sent w3 @ [req]\<rparr>
                 in case roundTrip E (length (sent w3)) req of
                      DoFailed err \<Rightarrow>
                        (Continue (NetworkError err ''request failed''),
                         logf c (LogNetworkError err) w4)
                    | ReadFailed err \<Rightarrow>
                        (Continue (NetworkError err ''failed to read response''),
                         logf c (LogReadError err) w4)
                    | Responded status respBody \<Rightarrow>
                        (let w5 = logf c (LogResponseBody respBody) (logf c (LogStatus status) w4)
                         in if status < 200 \<or> status \<ge> 300 then
                              (let apiErr = newAPIError E status respBody
                               in if status \<ge> 400 \<and> status < 500 \<and> status \<noteq> 429
                                  then (Return (Inl (APIErr apiErr)), w5)
                                  else (Continue (APIErr apiErr), w5))
                            else
                              (case result cfg of
                                 None \<Rightarrow> (Return (Inr None), w5)
                               | Some dec \<Rightarrow>
                                   if respBody \<noteq> [] then
                                     (case dec respBody of
                                        Inl msg \<Rightarrow> (Return (Inl (UnmarshalError msg)), w5)
                                      | Inr v \<Rightarrow> (Return (Inr (Some v)), w5))
                                   else (Return (Inr None), w5))))))"

subsection \<open>The retry loop and its entry points\<close>

function attempts ::
  "env \<Rightarrow> Client \<Rightarrow> 'r requestConfig \<Rightarrow> string \<Rightarrow> json_object option \<Rightarrow> int \<Rightarrow> error option
     \<Rightarrow> world \<Rightarrow> (error + 'r option) \<times> world" where
  "attempts E c cfg url bodyBytes attempt lastErr w =
     (if attempt \<le> maxRetries c then
        (case attemptOnce E c cfg url bodyBytes attempt w of
           (Return r, w') \<Rightarrow> (r, w')
         | (Continue e, w') \<Rightarrow> attempts E c cfg url bodyBytes (attempt + 1) (Some e) w')
      else ((case lastErr of None \<Rightarrow> Inr None | Some e \<Rightarrow> Inl e), w))"
  by pat_completeness auto
termination
  by (relation "measure (\<lambda>(E, c, cfg, url, bodyBytes, attempt, lastErr, w).
                  nat (maxRetries c + 1 - attempt))") auto

definition marshalBody :: "body option \<Rightarrow> string + json_object option" where
  "marshalBody b =
     (case b of
        None \<Rightarrow> Inr None
      | Some v \<Rightarrow> (case json_Marshal v of Inl err \<Rightarrow> Inl err | Inr bs \<Rightarrow> Inr (Some bs)))"

definition doRequest ::
  "env \<Rightarrow> Client \<Rightarrow> 'r requestConfig \<Rightarrow> world \<Rightarrow> (error + 'r option) \<times> world" where
  "doRequest E c cfg w =
     (case marshalBody (body cfg) of
        Inl err \<Rightarrow> (Inl (MarshalError err), w)
      | Inr bodyBytes \<Rightarrow> attempts E c cfg (baseURL c @ path cfg) bodyBytes 0 None w)"

definition get ::
  "env \<Rightarrow> Client \<Rightarrow> string \<Rightarrow> (string \<Rightarrow> string + 'r) option \<Rightarrow> world
     \<Rightarrow> (error + 'r option) \<times> world" where
  "get E c p res w =
     doRequest E c \<lparr>method = MethodGet, path = p, body = None, result = res,
                    requiresAuth = True, publicKeyOnly = False\<rparr> w"

definition post ::
  "env \<Rightarrow> Client \<Rightarrow> string \<Rightarrow> body option \<Rightarrow> (string \<Rightarrow> string + 'r) option \<Rightarrow> world
     \<Rightarrow> (error + 'r option) \<times> world" where
  "post E c p b res w =
     doRequest E c \<lparr>method = MethodPost, path = p, body = b, result = res,
                    requiresAuth = True, publicKeyOnly = False\<rparr> w"

definition postPublic ::
  "env \<Rightarrow> Client \<Rightarrow> string \<Rightarrow> body option \<Rightarrow> (string \<Rightarrow> string + 'r) option \<Rightarrow> world
     \<Rightarrow> (error + 'r option) \<times> world" where
  "postPublic E c p b res w =
     doRequest E c \<lparr>method = MethodPost, path = p, body = b, result = res,
                    requiresAuth = False, publicKeyOnly = True\<rparr> w"

section \<open>Resource operations\<close>

text \<open>
  Each operation takes the decoder \<open>dec\<close> of its response struct. \<^verbatim>\<open>Create\<close> receives
  its request by pointer and writes to it, so the caller's request after the call is part
  of what the model returns.
\<close>

definition Wallet_Create ::
  "env \<Rightarrow> (string \<Rightarrow> string + 'r) \<Rightarrow> Client \<Rightarrow> CreateWalletRequest \<Rightarrow> world
     \<Rightarrow> (error + 'r option) \<times> CreateWalletRequest \<times> world" where
  "Wallet_Create E dec c req w =
     (let req' = (if cw_WalletType req = [] then req\<lparr>cw_WalletType := WalletTypeWorking\<rparr>
                  else req);
          (r, w') = post E c ''/wallets/'' (Some (CreateWalletBody req')) (Some dec) w
      in (r, req', w'))"

definition Wallet_FundMPesa ::
  "env \<Rightarrow> (string \<Rightarrow> string + 'r) \<Rightarrow> Client \<Rightarrow> FundMPesaRequest \<Rightarrow> world
     \<Rightarrow> (error + 'r option) \<times> world" where
  "Wallet_FundMPesa E dec c req w =
     (let b = \<lparr>fb_PublicKey = publishableKey c, fb_WalletID = fm_WalletID req,
               fb_PhoneNumber = fm_PhoneNumber req, fb_Amount = fm_Amount req,
               fb_Email = fm_Email req, fb_APIRef = fm_APIRef req,
               fb_Method = ''M-PESA'', fb_Currency = ''KES''\<rparr>
      in post E c ''/payment/mpesa-stk-push/'' (Some (FundMPesaBody b)) (Some dec) w)"

definition Collection_MPesaSTKPush ::
  "env \<Rightarrow> (string \<Rightarrow> string + 'r) \<Rightarrow> Client \<Rightarrow> STKPushRequest \<Rightarrow> world
     \<Rightarrow> (error + 'r option) \<times> world" where
  "Collection_MPesaSTKPush E dec c req w =
     (let b = \<lparr>sb_PublicKey = publishableKey c, sb_PhoneNumber = stk_PhoneNumber req,
               sb_Amount = stk_Amount req, sb_APIRef = stk_APIRef req,
               sb_Name = stk_Name req, sb_Email = stk_Email req,
               sb_WalletID = stk_WalletID req,
               sb_Method = ''M-PESA'', sb_Currency = ''KES''\<rparr>
      in post E c ''/payment/mpesa-stk-push/'' (Some (STKPushBody b)) (Some dec) w)"

section \<open>Observing a call\<close>

text \<open>The requests a call has sent: those in the world after it that were not there before.\<close>

definition requestsSent :: "world \<Rightarrow> world \<Rightarrow> http_Request list" where
  "requestsSent w w' = drop (length (sent w)) (sent w')"

text \<open>
  Reading a string field of an encoded body the way the handlers in \<^verbatim>\<open>tests/\<close> do, by
  decoding into a struct: a field that is absent reads as the empty string.
\<close>

definition fieldString :: "json_object \<Rightarrow> string \<Rightarrow> string" where
  "fieldString obj name = (case map_of obj name of Some (JStr v) \<Rightarrow> v | _ \<Rightarrow> [])"

subsection \<open>Fixtures, after the repository's tests\<close>

definition emptyWorld :: world where
  "emptyWorld = \<lparr>sent = [], waits = [], logs = []\<rparr>"

text \<open>\<^verbatim>\<open>newTestClient\<close> of \<^verbatim>\<open>helpers_test.go\<close>: both keys, a base URL, no retries.\<close>

definition testClient :: Client where
  "testClient =
     \<lparr>publishableKey = ''ISPubKey_test_abc123'', secretKey = ''ISSecretKey_test_secret'',
      baseURL = ''http://127.0.0.1:8080'', httpClient = Some \<lparr>Timeout = DefaultTimeout\<rparr>,
      timeout = DefaultTimeout, maxRetries = 0, retryWait = 0,
      userAgent = ''intasend-go/'' @ Version, debug = False\<rparr>"

text \<open>A decoder for error bodies that are not JSON: it fills nothing in and fails.\<close>

definition notJSON :: "string \<Rightarrow> APIErrorFields \<times> bool" where
  "notJSON b = (\<lparr>json_code = [], json_message = [], json_detail = [],
                 json_errors = Map.empty, json_request_id = []\<rparr>, True)"

text \<open>
  A test server that answers the \<open>k\<close>-th request with \<open>script k\<close>; the context is never
  cancelled and every request can be built.
\<close>

definition testServer :: "(nat \<Rightarrow> round_trip) \<Rightarrow> env" where
  "testServer script =
     \<lparr>roundTrip = (\<lambda>k r. script k), ctxDone = (\<lambda>n. None),
      newRequest = (\<lambda>m u. None), unmarshalAPIError = notJSON\<rparr>"

text \<open>Scripts: the same answer to every request, or a list of answers in order.\<close>

definition always :: "round_trip \<Rightarrow> nat \<Rightarrow> round_trip" where
  "always r k = r"

definition inOrder :: "round_trip list \<Rightarrow> nat \<Rightarrow> round_trip" where
  "inOrder rs k = (if k < length rs then rs ! k else DoFailed ''connection refused'')"


text \<open>Result decoders: one that accepts every body as it is, one that accepts none.\<close>

definition acceptAny :: "string \<Rightarrow> string + string" where
  "acceptAny b = Inr b"


definition listWallets :: "string requestConfig" where
  "listWallets = \<lparr>method = MethodGet, path = ''/wallets/'', body = None,
                   result = Some acceptAny, requiresAuth = True, publicKeyOnly = False\<rparr>"

definition operationsWallet :: CreateWalletRequest where
  "operationsWallet = \<lparr>cw_Currency = ''KES'', cw_Label = ''Operations Wallet'',
                        cw_WalletType = [], cw_CanDisburse = True\<rparr>"

definition fundWallet :: FundMPesaRequest where
  "fundWallet = \<lparr>fm_WalletID = ''WALLET123'', fm_PhoneNumber = ''254712345678'',
                  fm_Amount = Finite 1000, fm_Email = ''customer@example.com'',
                  fm_APIRef = ''fund-wallet-001''\<rparr>"

definition stkPush :: STKPushRequest where
  "stkPush = \<lparr>stk_PhoneNumber = ''254712345678'', stk_Amount = Finite 100,
               stk_APIRef = ''order-123'', stk_Name = ''John Doe'',
               stk_Email = ''john@example.com'', stk_WalletID = []\<rparr>"

section \<open>Client construction\<close>

lemma prefix_test_not_live:
  "HasPrefix k ''ISPubKey_live'' \<Longrightarrow> \<not> HasPrefix k ''ISPubKey_test''"
  by (auto simp: HasPrefix_def prefix_def)

lemma HasPrefix_nonempty: "HasPrefix k (x # p) \<Longrightarrow> k \<noteq> []"
  by (auto simp: HasPrefix_def)

text \<open>
  Claim C5. Let \<open>c\<close> be the client as the options leave it. With no keys at all,
  construction fails with \<open>ErrNoKeysProvided\<close>. With a key and a non-empty base URL set
  by an option, that URL is kept whatever the keys say. With no base URL set, a publishable
  key starting with \<^verbatim>\<open>ISPubKey_test\<close> gives the sandbox endpoint (and \<open>IsSandbox\<close>
  holds), one starting with \<^verbatim>\<open>ISPubKey_live\<close> gives production, in both cases
  whatever the secret key is; the secret key's prefix decides only when the publishable
  key has neither prefix; and when no key has a recognised prefix construction fails with
  \<open>ErrInvalidEnvironment\<close>. A failure is \<open>Inl\<close>: no client is returned with it.
\<close>

theorem New_environment:
  assumes "applyOptions opts initialClient = Inr c"
  shows
    "(publishableKey c = [] \<and> secretKey c = [] \<longrightarrow> New opts = Inl ErrNoKeysProvided)
   \<and> (baseURL c \<noteq> [] \<and> (publishableKey c \<noteq> [] \<or> secretKey c \<noteq> []) \<longrightarrow>
        (\<exists>c'. New opts = Inr c' \<and> baseURL c' = baseURL c))
   \<and> (baseURL c = [] \<and> HasPrefix (publishableKey c) ''ISPubKey_test'' \<longrightarrow>
        (\<exists>c'. New opts = Inr c' \<and> baseURL c' = SandboxBaseURL \<and> IsSandbox c'))
   \<and> (baseURL c = [] \<and> HasPrefix (publishableKey c) ''ISPubKey_live'' \<longrightarrow>
        (\<exists>c'. New opts = Inr c' \<and> baseURL c' = ProductionBaseURL \<and> IsProduction c'))
   \<and> (baseURL c = [] \<and> \<not> HasPrefix (publishableKey c) ''ISPubKey_test''
        \<and> \<not> HasPrefix (publishableKey c) ''ISPubKey_live''
        \<and> HasPrefix (secretKey c) ''ISSecretKey_test'' \<longrightarrow>
        (\<exists>c'. New opts = Inr c' \<and> baseURL c' = SandboxBaseURL \<and> IsSandbox c'))
   \<and> (baseURL c = [] \<and> \<not> HasPrefix (publishableKey c) ''ISPubKey_test''
        \<and> \<not> HasPrefix (publishableKey c) ''ISPubKey_live''
        \<and> \<not> HasPrefix (secretKey c) ''ISSecretKey_test''
        \<and> HasPrefix (secretKey c) ''ISSecretKey_live'' \<longrightarrow>
        (\<exists>c'. New opts = Inr c' \<and> baseURL c' = ProductionBaseURL \<and> IsProduction c'))
   \<and> (baseURL c = [] \<and> (publishableKey c \<noteq> [] \<or> secretKey c \<noteq> [])
        \<and> \<not> HasPrefix (publishableKey c) ''ISPubKey_test''
        \<and> \<not> HasPrefix (publishableKey c) ''ISPubKey_live''
        \<and> \<not> HasPrefix (secretKey c) ''ISSecretKey_test''
        \<and> \<not> HasPrefix (secretKey c) ''ISSecretKey_live'' \<longrightarrow>
        New opts = Inl ErrInvalidEnvironment)"
proof -
  have N: "New opts = finishClient c"
    using assms by (simp add: New_def)
  have sb: "SandboxBaseURL \<noteq> []" and pb: "ProductionBaseURL \<noteq> []"
    by (simp_all add: SandboxBaseURL_def ProductionBaseURL_def)
  show ?thesis
    unfolding N
    using sb pb
    by (auto simp: finishClient_def detectEnvironment_def IsSandbox_def IsProduction_def Let_def
             dest: prefix_test_not_live HasPrefix_nonempty)
qed

theorem New_environment_witness:
  "applyOptions [WithPublishableKey ''ISPubKey_test_abc'', WithSecretKey ''ISSecretKey_live_xyz'']
      initialClient
     = Inr (initialClient\<lparr>publishableKey := ''ISPubKey_test_abc'',
                           secretKey := ''ISSecretKey_live_xyz''\<rparr>)
   \<and> (\<exists>c'. New [WithPublishableKey ''ISPubKey_test_abc'', WithSecretKey ''ISSecretKey_live_xyz'']
              = Inr c' \<and> baseURL c' = SandboxBaseURL \<and> IsSandbox c')"
proof -
  have a: "applyOptions [WithPublishableKey ''ISPubKey_test_abc'', WithSecretKey ''ISSecretKey_live_xyz'']
      initialClient
     = Inr (initialClient\<lparr>publishableKey := ''ISPubKey_test_abc'',
                           secretKey := ''ISSecretKey_live_xyz''\<rparr>)"
    by (simp add: WithPublishableKey_def WithSecretKey_def)
  show ?thesis
    using a New_environment [OF a]
    by (simp add: initialClient_def HasPrefix_def)
qed

section \<open>The request executor: one attempt and one turn of the loop\<close>

declare attempts.simps [simp del]

lemma sent_logf [simp]: "sent (logf c ev w) = sent w"
  by (simp add: logf_def)

lemma waits_logf [simp]: "waits (logf c ev w) = waits w"
  by (simp add: logf_def)



lemma attemptOnce_sent_cases:
  "sent (snd (attemptOnce E c cfg url bb a w)) = sent w
   \<or> sent (snd (attemptOnce E c cfg url bb a w)) = sent w @ [buildRequest c cfg url bb]"
  by (simp add: attemptOnce_def Let_def split: option.splits round_trip.splits sum.splits)

lemma attemptOnce_Continue_sent:
  "fst (attemptOnce E c cfg url bb a w) = Continue e \<Longrightarrow>
   sent (snd (attemptOnce E c cfg url bb a w)) = sent w @ [buildRequest c cfg url bb]"
  by (simp add: attemptOnce_def Let_def split: option.splits round_trip.splits sum.splits if_splits)

lemma attemptOnce_sends:
  assumes "a > 0 \<longrightarrow> ctxDone E a = None" "newRequest E (method cfg) url = None"
  shows "sent (snd (attemptOnce E c cfg url bb a w)) = sent w @ [buildRequest c cfg url bb]"
  using assms
  by (simp add: attemptOnce_def Let_def split: option.splits round_trip.splits sum.splits)

lemma attemptOnce_non2xx:
  assumes "a > 0 \<longrightarrow> ctxDone E a = None" "newRequest E (method cfg) url = None"
    and "roundTrip E (length (sent w)) (buildRequest c cfg url bb) = Responded s b"
    and "s < 200 \<or> s \<ge> 300"
  shows "fst (attemptOnce E c cfg url bb a w) =
           (if s \<ge> 400 \<and> s < 500 \<and> s \<noteq> 429
            then Return (Inl (APIErr (newAPIError E s b)))
            else Continue (APIErr (newAPIError E s b)))"
  using assms
  by (auto simp add: attemptOnce_def Let_def split: option.splits)

lemma attemptOnce_2xx:
  assumes "a > 0 \<longrightarrow> ctxDone E a = None" "newRequest E (method cfg) url = None"
    and "roundTrip E (length (sent w)) (buildRequest c cfg url bb) = Responded s b"
    and "200 \<le> s" "s < 300"
  shows "fst (attemptOnce E c cfg url bb a w) =
           Return (case result cfg of
                     None \<Rightarrow> Inr None
                   | Some dec \<Rightarrow>
                       if b \<noteq> [] then
                         (case dec b of Inl msg \<Rightarrow> Inl (UnmarshalError msg) | Inr v \<Rightarrow> Inr (Some v))
                       else Inr None)"
  using assms
  by (auto simp add: attemptOnce_def Let_def split: option.splits sum.splits)

lemma attempts_Return:
  assumes "a \<le> maxRetries c" "fst (attemptOnce E c cfg url bb a w) = Return r"
  shows "attempts E c cfg url bb a le w = (r, snd (attemptOnce E c cfg url bb a w))"
  using assms by (subst attempts.simps) (simp add: split_beta)

lemma attempts_Continue:
  assumes "a \<le> maxRetries c" "fst (attemptOnce E c cfg url bb a w) = Continue e"
  shows "attempts E c cfg url bb a le w =
           attempts E c cfg url bb (a + 1) (Some e) (snd (attemptOnce E c cfg url bb a w))"
  using assms by (subst attempts.simps) (simp add: split_beta)

lemma attempts_exhausted:
  assumes "\<not> a \<le> maxRetries c"
  shows "attempts E c cfg url bb a le w = ((case le of None \<Rightarrow> Inr None | Some e \<Rightarrow> Inl e), w)"
  using assms by (subst attempts.simps) simp

section \<open>The retry loop: requests sent and timers armed\<close>

lemma attempts_sent:
  "\<exists>k. sent (snd (attempts E c cfg url bb a le w)) = sent w @ replicate k (buildRequest c cfg url bb)
       \<and> int k \<le> max 0 (maxRetries c + 1 - a)"
proof (induction "nat (maxRetries c + 1 - a)" arbitrary: a le w)
  case 0
  then have "\<not> a \<le> maxRetries c" by simp
  then show ?case by (simp add: attempts_exhausted)
next
  case (Suc n)
  then have le: "a \<le> maxRetries c" by simp
  let ?req = "buildRequest c cfg url bb"
  let ?w' = "snd (attemptOnce E c cfg url bb a w)"
  show ?case
  proof (cases "fst (attemptOnce E c cfg url bb a w)")
    case (Return r)
    have eq: "attempts E c cfg url bb a le w = (r, ?w')"
      using le Return by (rule attempts_Return)
    from attemptOnce_sent_cases [of E c cfg url bb a w]
    show ?thesis
    proof
      assume "sent ?w' = sent w"
      then have "sent (snd (attempts E c cfg url bb a le w)) = sent w @ replicate 0 ?req"
        by (simp add: eq)
      then show ?thesis using le by (intro exI [of _ 0]) simp
    next
      assume "sent ?w' = sent w @ [?req]"
      then have "sent (snd (attempts E c cfg url bb a le w)) = sent w @ replicate 1 ?req"
        by (simp add: eq)
      then show ?thesis using le by (intro exI [of _ 1]) simp
    qed
  next
    case (Continue e)
    have eq: "attempts E c cfg url bb a le w = attempts E c cfg url bb (a + 1) (Some e) ?w'"
      using le Continue by (rule attempts_Continue)
    have s: "sent ?w' = sent w @ [?req]"
      using Continue by (rule attemptOnce_Continue_sent)
    have "n = nat (maxRetries c + 1 - (a + 1))" using Suc.hyps(2) by simp
    from Suc.hyps(1) [OF this, of "Some e" ?w']
    obtain k where k: "sent (snd (attempts E c cfg url bb (a + 1) (Some e) ?w'))
                        = sent ?w' @ replicate k ?req"
      and kb: "int k \<le> max 0 (maxRetries c + 1 - (a + 1))" by blast
    have "sent (snd (attempts E c cfg url bb a le w)) = sent w @ replicate (Suc k) ?req"
      using k s eq by (simp add: replicate_append_same)
    moreover have "int (Suc k) \<le> max 0 (maxRetries c + 1 - a)" using kb le by simp
    ultimately show ?thesis by blast
  qed
qed

lemma doRequest_sent:
  "\<exists>k. sent (snd (doRequest E c cfg w))
          = sent w @ replicate k (buildRequest c cfg (baseURL c @ path cfg)
                                   (case marshalBody (body cfg) of Inl err \<Rightarrow> None | Inr b \<Rightarrow> b))
       \<and> int k \<le> max 0 (maxRetries c + 1)"
proof (cases "marshalBody (body cfg)")
  case (Inl err)
  then have "sent (snd (doRequest E c cfg w)) = sent w @ replicate 0 (buildRequest c cfg (baseURL c @ path cfg) None)"
    by (simp add: doRequest_def)
  then show ?thesis using Inl by (intro exI [of _ 0]) simp
next
  case (Inr b)
  from attempts_sent [of E c cfg "baseURL c @ path cfg" b 0 None w]
  show ?thesis using Inr by (simp add: doRequest_def)
qed


section \<open>Exhausting the retry budget\<close>





section \<open>Terminal and retryable statuses\<close>

text \<open>
  Claim C2. Take any turn of the loop that gets an answer with a status \<open>s\<close> outside
  200..299. If \<open>400 \<le> s < 500\<close> and \<open>s \<noteq> 429\<close> the call returns the API error of that
  answer at once, having sent this one request and no other; for every other such status
  (429, 500 and above, below 200, and 300..399) the error is recorded as the last error and
  the loop goes on with the next attempt. So a terminal status on the first attempt means
  exactly one request, and a 429 followed by a 200 whose body is accepted means success after
  exactly two.
\<close>

theorem doRequest_classification:
  "(a \<le> maxRetries c \<and> (a > 0 \<longrightarrow> ctxDone E a = None)
      \<and> newRequest E (method cfg) url = None
      \<and> roundTrip E (length (sent w)) (buildRequest c cfg url bb) = Responded s b
      \<and> (s < 200 \<or> s \<ge> 300)
    \<longrightarrow> (if 400 \<le> s \<and> s < 500 \<and> s \<noteq> 429
         then fst (attempts E c cfg url bb a lastErr w) = Inl (APIErr (newAPIError E s b))
            \<and> requestsSent w (snd (attempts E c cfg url bb a lastErr w))
                 = [buildRequest c cfg url bb]
         else attempts E c cfg url bb a lastErr w
                = attempts E c cfg url bb (a + 1) (Some (APIErr (newAPIError E s b)))
                    (snd (attemptOnce E c cfg url bb a w))
            \<and> sent (snd (attemptOnce E c cfg url bb a w)) = sent w @ [buildRequest c cfg url bb]))
   \<and> (0 \<le> maxRetries c \<and> marshalBody (body cfg) = Inr bb
      \<and> newRequest E (method cfg) (baseURL c @ path cfg) = None
      \<and> roundTrip E (length (sent w)) (buildRequest c cfg (baseURL c @ path cfg) bb)
           = Responded s b
      \<and> 400 \<le> s \<and> s < 500 \<and> s \<noteq> 429
    \<longrightarrow> fst (doRequest E c cfg w) = Inl (APIErr (newAPIError E s b))
        \<and> length (requestsSent w (snd (doRequest E c cfg w))) = 1)
   \<and> (1 \<le> maxRetries c \<and> marshalBody (body cfg) = Inr bb
      \<and> newRequest E (method cfg) (baseURL c @ path cfg) = None
      \<and> ctxDone E 1 = None
      \<and> roundTrip E (length (sent w)) (buildRequest c cfg (baseURL c @ path cfg) bb)
           = Responded 429 b
      \<and> roundTrip E (Suc (length (sent w))) (buildRequest c cfg (baseURL c @ path cfg) bb)
           = Responded 200 b'
      \<and> (result cfg = None \<or> b' = [] \<or> (\<exists>dec v. result cfg = Some dec \<and> dec b' = Inr v))
    \<longrightarrow> (\<exists>v. fst (doRequest E c cfg w) = Inr v)
        \<and> length (requestsSent w (snd (doRequest E c cfg w))) = 2)"
proof (intro conjI impI)
  assume h: "a \<le> maxRetries c \<and> (a > 0 \<longrightarrow> ctxDone E a = None)
      \<and> newRequest E (method cfg) url = None
      \<and> roundTrip E (length (sent w)) (buildRequest c cfg url bb) = Responded s b
      \<and> (s < 200 \<or> s \<ge> 300)"
  let ?req = "buildRequest c cfg url bb"
  let ?w' = "snd (attemptOnce E c cfg url bb a w)"
  have f: "fst (attemptOnce E c cfg url bb a w) =
           (if s \<ge> 400 \<and> s < 500 \<and> s \<noteq> 429
            then Return (Inl (APIErr (newAPIError E s b)))
            else Continue (APIErr (newAPIError E s b)))"
    using h by (intro attemptOnce_non2xx) simp_all
  have snt: "sent ?w' = sent w @ [?req]"
    using h by (intro attemptOnce_sends) simp_all
  show "if 400 \<le> s \<and> s < 500 \<and> s \<noteq> 429
         then fst (attempts E c cfg url bb a lastErr w) = Inl (APIErr (newAPIError E s b))
            \<and> requestsSent w (snd (attempts E c cfg url bb a lastErr w)) = [?req]
         else attempts E c cfg url bb a lastErr w
                = attempts E c cfg url bb (a + 1) (Some (APIErr (newAPIError E s b))) ?w'
            \<and> sent ?w' = sent w @ [?req]"
  proof (cases "400 \<le> s \<and> s < 500 \<and> s \<noteq> 429")
    case True
    then have "fst (attemptOnce E c cfg url bb a w) = Return (Inl (APIErr (newAPIError E s b)))"
      using f by simp
    with h have "attempts E c cfg url bb a lastErr w = (Inl (APIErr (newAPIError E s b)), ?w')"
      by (intro attempts_Return) simp_all
    then show ?thesis using True snt by (simp add: requestsSent_def)
  next
    case False
    then have "fst (attemptOnce E c cfg url bb a w) = Continue (APIErr (newAPIError E s b))"
      using f by auto
    with h have "attempts E c cfg url bb a lastErr w
                = attempts E c cfg url bb (a + 1) (Some (APIErr (newAPIError E s b))) ?w'"
      by (intro attempts_Continue) simp_all
    then show ?thesis using False snt by auto
  qed
next
  assume h: "0 \<le> maxRetries c \<and> marshalBody (body cfg) = Inr bb
      \<and> newRequest E (method cfg) (baseURL c @ path cfg) = None
      \<and> roundTrip E (length (sent w)) (buildRequest c cfg (baseURL c @ path cfg) bb)
           = Responded s b
      \<and> 400 \<le> s \<and> s < 500 \<and> s \<noteq> 429"
  let ?url = "baseURL c @ path cfg"
  let ?w' = "snd (attemptOnce E c cfg ?url bb 0 w)"
  have d: "doRequest E c cfg w = attempts E c cfg ?url bb 0 None w"
    using h by (simp add: doRequest_def)
  have "fst (attemptOnce E c cfg ?url bb 0 w) =
           (if s \<ge> 400 \<and> s < 500 \<and> s \<noteq> 429
            then Return (Inl (APIErr (newAPIError E s b)))
            else Continue (APIErr (newAPIError E s b)))"
    using h by (intro attemptOnce_non2xx) simp_all
  then have "fst (attemptOnce E c cfg ?url bb 0 w) = Return (Inl (APIErr (newAPIError E s b)))"
    using h by simp
  with h have r: "attempts E c cfg ?url bb 0 None w = (Inl (APIErr (newAPIError E s b)), ?w')"
    by (intro attempts_Return) simp_all
  have snt: "sent ?w' = sent w @ [buildRequest c cfg ?url bb]"
    using h by (intro attemptOnce_sends) simp_all
  show "fst (doRequest E c cfg w) = Inl (APIErr (newAPIError E s b))"
    by (simp add: d r)
  show "length (requestsSent w (snd (doRequest E c cfg w))) = 1"
    by (simp add: d r snt requestsSent_def)
next
  assume h: "1 \<le> maxRetries c \<and> marshalBody (body cfg) = Inr bb
      \<and> newRequest E (method cfg) (baseURL c @ path cfg) = None
      \<and> ctxDone E 1 = None
      \<and> roundTrip E (length (sent w)) (buildRequest c cfg (baseURL c @ path cfg) bb)
           = Responded 429 b
      \<and> roundTrip E (Suc (length (sent w))) (buildRequest c cfg (baseURL c @ path cfg) bb)
           = Responded 200 b'
      \<and> (result cfg = None \<or> b' = [] \<or> (\<exists>dec v. result cfg = Some dec \<and> dec b' = Inr v))"
  let ?url = "baseURL c @ path cfg"
  let ?req = "buildRequest c cfg ?url bb"
  let ?w1 = "snd (attemptOnce E c cfg ?url bb 0 w)"
  let ?w2 = "snd (attemptOnce E c cfg ?url bb 1 ?w1)"
  let ?e = "APIErr (newAPIError E 429 b)"
  have d: "doRequest E c cfg w = attempts E c cfg ?url bb 0 None w"
    using h by (simp add: doRequest_def)
  have "fst (attemptOnce E c cfg ?url bb 0 w) =
           (if (429::int) \<ge> 400 \<and> (429::int) < 500 \<and> (429::int) \<noteq> 429
            then Return (Inl (APIErr (newAPIError E 429 b)))
            else Continue (APIErr (newAPIError E 429 b)))"
    using h by (intro attemptOnce_non2xx) simp_all
  then have f1: "fst (attemptOnce E c cfg ?url bb 0 w) = Continue ?e" by simp
  have s1: "sent ?w1 = sent w @ [?req]"
    using h by (intro attemptOnce_sends) simp_all
  have e1: "attempts E c cfg ?url bb 0 None w = attempts E c cfg ?url bb (0 + 1) (Some ?e) ?w1"
    using h f1 by (intro attempts_Continue) simp_all
  have rt2: "roundTrip E (length (sent ?w1)) ?req = Responded 200 b'"
    using h s1 by simp
  have f2: "fst (attemptOnce E c cfg ?url bb 1 ?w1) =
           Return (case result cfg of
                     None \<Rightarrow> Inr None
                   | Some dec \<Rightarrow>
                       if b' \<noteq> [] then
                         (case dec b' of Inl msg \<Rightarrow> Inl (UnmarshalError msg) | Inr v \<Rightarrow> Inr (Some v))
                       else Inr None)"
  proof -
    have c1: "(1::int) > 0 \<longrightarrow> ctxDone E 1 = None" using h by simp
    have nr: "newRequest E (method cfg) ?url = None" using h by simp
    show ?thesis using attemptOnce_2xx [OF c1 nr rt2] by simp
  qed
  have s2: "sent ?w2 = sent ?w1 @ [?req]"
    using h by (intro attemptOnce_sends) simp_all
  have e2: "attempts E c cfg ?url bb 1 (Some ?e) ?w1 =
              ((case result cfg of
                     None \<Rightarrow> Inr None
                   | Some dec \<Rightarrow>
                       if b' \<noteq> [] then
                         (case dec b' of Inl msg \<Rightarrow> Inl (UnmarshalError msg) | Inr v \<Rightarrow> Inr (Some v))
                       else Inr None), ?w2)"
    using h f2 by (intro attempts_Return) simp_all
  have ok: "\<exists>v. (case result cfg of
                     None \<Rightarrow> Inr None
                   | Some dec \<Rightarrow>
                       if b' \<noteq> [] then
                         (case dec b' of Inl msg \<Rightarrow> Inl (UnmarshalError msg) | Inr v \<Rightarrow> Inr (Some v))
                       else Inr None) = (Inr v :: error + 'a option)"
    using h by (auto split: option.splits)
  show "\<exists>v. fst (doRequest E c cfg w) = Inr v"
    using ok by (simp add: d e1 e2)
  show "length (requestsSent w (snd (doRequest E c cfg w))) = 2"
    by (simp add: d e1 e2 s1 s2 requestsSent_def)
qed

section \<open>Decoding answers\<close>


lemma newAPIError_status [simp]: "HTTPStatusCode (newAPIError E s b) = s"
  by (simp add: newAPIError_def Let_def split: prod.splits)

lemma newAPIError_unparsed:
  "snd (unmarshalAPIError E b) \<Longrightarrow> Message (newAPIError E s b) = b"
  by (cases "unmarshalAPIError E b") (simp add: newAPIError_def Let_def)

lemma newAPIError_parsed:
  "\<not> snd (unmarshalAPIError E b) \<Longrightarrow>
   Message (newAPIError E s b) = json_message (fst (unmarshalAPIError E b))"
  by (cases "unmarshalAPIError E b") (simp add: newAPIError_def Let_def)

lemma attemptOnce_APIErr:
  assumes "fst (attemptOnce E c cfg url bb a w) = Return (Inl (APIErr e))
         \<or> fst (attemptOnce E c cfg url bb a w) = Continue (APIErr e)"
  shows "sent (snd (attemptOnce E c cfg url bb a w)) = sent w @ [buildRequest c cfg url bb]
       \<and> (\<exists>s b. roundTrip E (length (sent w)) (buildRequest c cfg url bb) = Responded s b
                \<and> (s < 200 \<or> 300 \<le> s) \<and> e = newAPIError E s b)"
  using assms
  by (auto simp add: attemptOnce_def Let_def
           split: option.splits round_trip.splits sum.splits if_splits)

lemma attempts_APIErr_from_last:
  assumes "\<forall>e. le = Some (APIErr e) \<longrightarrow>
             n < length (sent w)
           \<and> (\<exists>s b. roundTrip E (length (sent w) - 1) (last (sent w)) = Responded s b
                    \<and> (s < 200 \<or> 300 \<le> s) \<and> e = newAPIError E s b)"
    and "fst (attempts E c cfg url bb a le w) = Inl (APIErr e)"
    and "n \<le> length (sent w)"
  shows "n < length (sent (snd (attempts E c cfg url bb a le w)))
       \<and> (\<exists>s b. roundTrip E (length (sent (snd (attempts E c cfg url bb a le w))) - 1)
                   (last (sent (snd (attempts E c cfg url bb a le w)))) = Responded s b
                \<and> (s < 200 \<or> 300 \<le> s) \<and> e = newAPIError E s b)"
  using assms
proof (induction "nat (maxRetries c + 1 - a)" arbitrary: a le w)
  case 0
  then have n: "\<not> a \<le> maxRetries c" by simp
  from "0.prems"(2) have "le = Some (APIErr e)"
    by (simp add: attempts_exhausted [OF n] split: option.splits)
  with "0.prems"(1) show ?case by (simp add: attempts_exhausted [OF n])
next
  case (Suc k)
  then have le: "a \<le> maxRetries c" by simp
  let ?req = "buildRequest c cfg url bb"
  let ?w' = "snd (attemptOnce E c cfg url bb a w)"
  show ?case
  proof (cases "fst (attemptOnce E c cfg url bb a w)")
    case (Return r)
    have eq: "attempts E c cfg url bb a le w = (r, ?w')"
      using le Return by (rule attempts_Return)
    with Suc.prems(2) have "r = Inl (APIErr e)" by simp
    with Return attemptOnce_APIErr [of E c cfg url bb a w e]
    have "sent ?w' = sent w @ [?req]
       \<and> (\<exists>s b. roundTrip E (length (sent w)) ?req = Responded s b
                \<and> (s < 200 \<or> 300 \<le> s) \<and> e = newAPIError E s b)" by simp
    then show ?thesis using Suc.prems(3) by (simp add: eq)
  next
    case (Continue e')
    have eq: "attempts E c cfg url bb a le w = attempts E c cfg url bb (a + 1) (Some e') ?w'"
      using le Continue by (rule attempts_Continue)
    have s: "sent ?w' = sent w @ [?req]"
      using Continue by (rule attemptOnce_Continue_sent)
    have k: "k = nat (maxRetries c + 1 - (a + 1))" using Suc.hyps(2) by simp
    have inv: "\<forall>e. Some e' = Some (APIErr e) \<longrightarrow>
             n < length (sent ?w')
           \<and> (\<exists>s b. roundTrip E (length (sent ?w') - 1) (last (sent ?w')) = Responded s b
                    \<and> (s < 200 \<or> 300 \<le> s) \<and> e = newAPIError E s b)"
    proof (intro allI impI)
      fix e0 assume "Some e' = Some (APIErr e0)"
      then have "fst (attemptOnce E c cfg url bb a w) = Continue (APIErr e0)"
        using Continue by simp
      with attemptOnce_APIErr [of E c cfg url bb a w e0]
      have "\<exists>s b. roundTrip E (length (sent w)) ?req = Responded s b
                \<and> (s < 200 \<or> 300 \<le> s) \<and> e0 = newAPIError E s b" by simp
      then show "n < length (sent ?w')
           \<and> (\<exists>s b. roundTrip E (length (sent ?w') - 1) (last (sent ?w')) = Responded s b
                    \<and> (s < 200 \<or> 300 \<le> s) \<and> e0 = newAPIError E s b)"
        using s Suc.prems(3) by simp
    qed
    have f: "fst (attempts E c cfg url bb (a + 1) (Some e') ?w') = Inl (APIErr e)"
      using Suc.prems(2) by (simp add: eq)
    have b: "n \<le> length (sent ?w')" using s Suc.prems(3) by simp
    from Suc.hyps(1) [OF k inv f b] show ?thesis by (simp add: eq)
  qed
qed

text \<open>
  Claim C8. Whenever \<open>doRequest\<close> returns an API error, that error was built from the
  answer to the last request the call sent, an answer with a status outside 200..299; its
  status code is that answer's status, and when the answer's body did not parse as the
  error shape its message is the body, byte for byte (so it is empty only if the body is).
\<close>

theorem doRequest_unparsed_error_body:
  "fst (doRequest E c cfg w) = Inl (APIErr e) \<longrightarrow>
     requestsSent w (snd (doRequest E c cfg w)) \<noteq> []
   \<and> (\<exists>s b. roundTrip E (length (sent (snd (doRequest E c cfg w))) - 1)
                (last (requestsSent w (snd (doRequest E c cfg w)))) = Responded s b
           \<and> (s < 200 \<or> 300 \<le> s)
           \<and> HTTPStatusCode e = s
           \<and> (snd (unmarshalAPIError E b) \<longrightarrow> Message e = b \<and> (b \<noteq> [] \<longrightarrow> Message e \<noteq> [])))"
proof
  assume r: "fst (doRequest E c cfg w) = Inl (APIErr e)"
  then obtain bb where m: "marshalBody (body cfg) = Inr bb"
    by (cases "marshalBody (body cfg)") (simp_all add: doRequest_def)
  let ?url = "baseURL c @ path cfg"
  have d: "doRequest E c cfg w = attempts E c cfg ?url bb 0 None w"
    using m by (simp add: doRequest_def)
  let ?w' = "snd (attempts E c cfg ?url bb 0 None w)"
  have "length (sent w) < length (sent ?w')
       \<and> (\<exists>s b. roundTrip E (length (sent ?w') - 1) (last (sent ?w')) = Responded s b
                \<and> (s < 200 \<or> 300 \<le> s) \<and> e = newAPIError E s b)"
    using r by (intro attempts_APIErr_from_last) (simp_all add: d)
  then obtain s b where len: "length (sent w) < length (sent ?w')"
    and rt: "roundTrip E (length (sent ?w') - 1) (last (sent ?w')) = Responded s b"
    and s: "s < 200 \<or> 300 \<le> s" and e: "e = newAPIError E s b" by blast
  have ne: "requestsSent w ?w' \<noteq> []" using len by (simp add: requestsSent_def)
  have l: "last (requestsSent w ?w') = last (sent ?w')"
    using len by (simp add: requestsSent_def last_drop)
  show "requestsSent w (snd (doRequest E c cfg w)) \<noteq> []
   \<and> (\<exists>s b. roundTrip E (length (sent (snd (doRequest E c cfg w))) - 1)
                (last (requestsSent w (snd (doRequest E c cfg w)))) = Responded s b
           \<and> (s < 200 \<or> 300 \<le> s)
           \<and> HTTPStatusCode e = s
           \<and> (snd (unmarshalAPIError E b) \<longrightarrow> Message e = b \<and> (b \<noteq> [] \<longrightarrow> Message e \<noteq> [])))"
    unfolding d using ne l rt s e by (auto simp: newAPIError_unparsed)
qed

section \<open>Credential headers\<close>

lemma buildRequest_authorization:
  "req_Header (buildRequest c cfg url bb) headerAuthorization =
     (if requiresAuth cfg \<and> secretKey c \<noteq> [] then Some (''Bearer '' @ secretKey c) else None)"
  by (simp add: buildRequest_def Let_def headerAuthorization_def headerContentType_def
        headerUserAgent_def headerPublicAPIKey_def headerIntaSendPublicKey_def)

lemma buildRequest_fields [simp]:
  "req_Method (buildRequest c cfg url bb) = method cfg"
  "req_URL (buildRequest c cfg url bb) = url"
  "req_Body (buildRequest c cfg url bb) = bb"
  by (simp_all add: buildRequest_def Let_def)

lemma doRequest_requests:
  assumes "r \<in> set (requestsSent w (snd (doRequest E c cfg w)))"
  shows "\<exists>bb. marshalBody (body cfg) = Inr bb
             \<and> r = buildRequest c cfg (baseURL c @ path cfg) bb"
proof -
  from doRequest_sent [of E c cfg w]
  obtain k where k: "sent (snd (doRequest E c cfg w))
          = sent w @ replicate k (buildRequest c cfg (baseURL c @ path cfg)
                                   (case marshalBody (body cfg) of Inl err \<Rightarrow> None | Inr b \<Rightarrow> b))"
    by blast
  show ?thesis
  proof (cases "marshalBody (body cfg)")
    case (Inl err)
    then have "requestsSent w (snd (doRequest E c cfg w)) = []"
      by (simp add: doRequest_def requestsSent_def)
    with assms show ?thesis by simp
  next
    case (Inr bb)
    with k assms show ?thesis by (auto simp: requestsSent_def)
  qed
qed

text \<open>
  Claim C3. Every request \<open>doRequest\<close> sends carries an \<^verbatim>\<open>Authorization\<close> header if and
  only if the descriptor has \<open>requiresAuth\<close> set and the client's secret key is not empty,
  and then its value is \<^verbatim>\<open>Bearer\<close>, a space and the secret key. Requests sent through
  \<open>postPublic\<close> never carry the header, whatever the secret key; those sent through
  \<open>get\<close> and \<open>post\<close> carry it whenever a secret key is configured.
\<close>

theorem doRequest_authorization_header:
  "(\<forall>r \<in> set (requestsSent w (snd (doRequest E c cfg w))).
      req_Header r headerAuthorization =
        (if requiresAuth cfg \<and> secretKey c \<noteq> [] then Some (''Bearer '' @ secretKey c) else None))
   \<and> (\<forall>r \<in> set (requestsSent w (snd (postPublic E c p b res w))).
      req_Header r headerAuthorization = None)
   \<and> (\<forall>r \<in> set (requestsSent w (snd (post E c p b res w))).
      req_Header r headerAuthorization =
        (if secretKey c \<noteq> [] then Some (''Bearer '' @ secretKey c) else None))
   \<and> (\<forall>r \<in> set (requestsSent w (snd (get E c p res w))).
      req_Header r headerAuthorization =
        (if secretKey c \<noteq> [] then Some (''Bearer '' @ secretKey c) else None))"
proof (intro conjI ballI)
  fix r assume "r \<in> set (requestsSent w (snd (doRequest E c cfg w)))"
  then show "req_Header r headerAuthorization =
        (if requiresAuth cfg \<and> secretKey c \<noteq> [] then Some (''Bearer '' @ secretKey c) else None)"
    by (auto dest!: doRequest_requests simp: buildRequest_authorization)
next
  fix r assume "r \<in> set (requestsSent w (snd (postPublic E c p b res w)))"
  then show "req_Header r headerAuthorization = None"
    unfolding postPublic_def
    by (auto dest!: doRequest_requests simp: buildRequest_authorization)
next
  fix r assume "r \<in> set (requestsSent w (snd (post E c p b res w)))"
  then show "req_Header r headerAuthorization =
        (if secretKey c \<noteq> [] then Some (''Bearer '' @ secretKey c) else None)"
    unfolding post_def
    by (auto dest!: doRequest_requests simp: buildRequest_authorization)
next
  fix r assume "r \<in> set (requestsSent w (snd (get E c p res w)))"
  then show "req_Header r headerAuthorization =
        (if secretKey c \<noteq> [] then Some (''Bearer '' @ secretKey c) else None)"
    unfolding get_def
    by (auto dest!: doRequest_requests simp: buildRequest_authorization)
qed

section \<open>The backoff wait\<close>

lemma waitTime_word: "waitTime c n = word_of_int (sint (retryWait c) * 2 ^ nat (n - 1))"
  by (simp add: waitTime_def push_bit_eq_mult)

lemma waitTime_sint:
  "sint (waitTime c n) = signed_take_bit 63 (sint (retryWait c) * 2 ^ nat (n - 1))"
  unfolding waitTime_word sint_sbintrunc' by simp

lemma waitTime_exact:
  assumes "- (2 ^ 63) \<le> sint (retryWait c) * 2 ^ nat (n - 1)"
    and "sint (retryWait c) * 2 ^ nat (n - 1) < 2 ^ 63"
  shows "sint (waitTime c n) = sint (retryWait c) * 2 ^ nat (n - 1)"
  using assms by (simp add: waitTime_sint signed_take_bit_int_eq_self)






section \<open>Resource operations\<close>

lemma post_requests:
  assumes "r \<in> set (requestsSent w (snd (post E c p (Some b) res w)))"
  shows "\<exists>obj. json_Marshal b = Inr obj
             \<and> req_Body r = Some obj
             \<and> req_Method r = MethodPost
             \<and> req_URL r = baseURL c @ p
             \<and> req_Header r headerAuthorization =
                 (if secretKey c \<noteq> [] then Some (''Bearer '' @ secretKey c) else None)"
proof -
  from assms obtain bb where
    m: "marshalBody (Some b) = Inr bb"
    and r: "r = buildRequest c \<lparr>method = MethodPost, path = p, body = Some b, result = res,
                    requiresAuth = True, publicKeyOnly = False\<rparr> (baseURL c @ p) bb"
    unfolding post_def by (auto dest!: doRequest_requests)
  from m obtain obj where "json_Marshal b = Inr obj" "bb = Some obj"
    by (auto simp: marshalBody_def split: sum.splits)
  with r show ?thesis by (simp add: buildRequest_authorization)
qed

text \<open>
  Claim C4, as the code has it. \<open>FundMPesa\<close> goes through \<open>post\<close>, the authenticated
  entry point: every request it sends is a POST to the base URL followed by
  \<^verbatim>\<open>/payment/mpesa-stk-push/\<close>, and carries the bearer \<^verbatim>\<open>Authorization\<close> header whenever
  the client has a secret key (and no such header only when it has none).
\<close>

theorem FundMPesa_authenticated:
  "\<forall>r \<in> set (requestsSent w (snd (Wallet_FundMPesa E dec c req w))).
      req_Method r = ''POST''
    \<and> req_URL r = baseURL c @ ''/payment/mpesa-stk-push/''
    \<and> req_Header r headerAuthorization =
        (if secretKey c \<noteq> [] then Some (''Bearer '' @ secretKey c) else None)"
  unfolding Wallet_FundMPesa_def Let_def
  by (auto dest!: post_requests simp: MethodPost_def)

theorem FundMPesa_authenticated_counterexample:
  "length (requestsSent emptyWorld
     (snd (Wallet_FundMPesa (testServer (always (Responded 200 []))) acceptAny testClient
             fundWallet emptyWorld))) = 1
   \<and> req_Header (hd (requestsSent emptyWorld
        (snd (Wallet_FundMPesa (testServer (always (Responded 200 []))) acceptAny testClient
                fundWallet emptyWorld)))) headerAuthorization
       = Some ''Bearer ISSecretKey_test_secret''"
  by (simp add: Wallet_FundMPesa_def post_def doRequest_def marshalBody_def fundWallet_def
        attempts.simps attemptOnce_def Let_def testServer_def always_def testClient_def
        emptyWorld_def logf_def requestsSent_def buildRequest_def acceptAny_def
        headerAuthorization_def headerContentType_def headerUserAgent_def
        headerPublicAPIKey_def headerIntaSendPublicKey_def)

theorem FundMPesa_authenticated_witness:
  "hd (requestsSent emptyWorld
        (snd (Wallet_FundMPesa (testServer (always (Responded 200 []))) acceptAny testClient
                fundWallet emptyWorld)))
     \<in> set (requestsSent emptyWorld
        (snd (Wallet_FundMPesa (testServer (always (Responded 200 []))) acceptAny testClient
                fundWallet emptyWorld)))
   \<and> req_Method (hd (requestsSent emptyWorld
        (snd (Wallet_FundMPesa (testServer (always (Responded 200 []))) acceptAny testClient
                fundWallet emptyWorld)))) = ''POST''
   \<and> req_URL (hd (requestsSent emptyWorld
        (snd (Wallet_FundMPesa (testServer (always (Responded 200 []))) acceptAny testClient
                fundWallet emptyWorld)))) = ''http://127.0.0.1:8080/payment/mpesa-stk-push/''"
proof -
  let ?rs = "requestsSent emptyWorld
        (snd (Wallet_FundMPesa (testServer (always (Responded 200 []))) acceptAny testClient
                fundWallet emptyWorld))"
  have "length ?rs = 1"
    by (simp add: Wallet_FundMPesa_def post_def doRequest_def marshalBody_def fundWallet_def
        attempts.simps attemptOnce_def Let_def testServer_def always_def testClient_def
        emptyWorld_def logf_def requestsSent_def acceptAny_def)
  then have m: "hd ?rs \<in> set ?rs" by (cases ?rs) simp_all
  with FundMPesa_authenticated [of emptyWorld "testServer (always (Responded 200 []))" acceptAny
         testClient fundWallet]
  show ?thesis by (simp add: testClient_def)
qed

lemma Wallet_Create_parts:
  "fst (snd (Wallet_Create E dec c req w))
     = (if cw_WalletType req = [] then req\<lparr>cw_WalletType := WalletTypeWorking\<rparr> else req)"
  "snd (snd (Wallet_Create E dec c req w))
     = snd (post E c ''/wallets/''
              (Some (CreateWalletBody
                 (if cw_WalletType req = [] then req\<lparr>cw_WalletType := WalletTypeWorking\<rparr>
                  else req))) (Some dec) w)"
  by (simp_all add: Wallet_Create_def Let_def split_beta)

lemma marshal_wallet_type:
  "cw_WalletType r \<noteq> [] \<Longrightarrow> json_Marshal (CreateWalletBody r) = Inr obj \<Longrightarrow>
   map_of obj ''wallet_type'' = Some (JStr (cw_WalletType r))"
  by (auto simp: strField_def strFieldOmitEmpty_def boolFieldOmitEmpty_def)

text \<open>
  Claim C9, as the code has it. \<open>Create\<close> writes the default into the request it was
  given: after the call the caller's request has wallet type \<^verbatim>\<open>WORKING\<close> if it was empty
  before, and is unchanged otherwise; currency, label and the disburse flag are never
  touched. Every request sent carries the wallet type of the request after that
  substitution.
\<close>

theorem Wallet_Create_default:
  "fst (snd (Wallet_Create E dec c req w))
     = (if cw_WalletType req = [] then req\<lparr>cw_WalletType := ''WORKING''\<rparr> else req)
   \<and> cw_Currency (fst (snd (Wallet_Create E dec c req w))) = cw_Currency req
   \<and> cw_Label (fst (snd (Wallet_Create E dec c req w))) = cw_Label req
   \<and> cw_CanDisburse (fst (snd (Wallet_Create E dec c req w))) = cw_CanDisburse req
   \<and> (\<forall>r \<in> set (requestsSent w (snd (snd (Wallet_Create E dec c req w)))).
        \<exists>obj. req_Body r = Some obj
            \<and> map_of obj ''wallet_type''
                = Some (JStr (if cw_WalletType req = [] then ''WORKING'' else cw_WalletType req)))"
proof (intro conjI ballI)
  fix r assume "r \<in> set (requestsSent w (snd (snd (Wallet_Create E dec c req w))))"
  then obtain obj where
    m: "json_Marshal (CreateWalletBody
          (if cw_WalletType req = [] then req\<lparr>cw_WalletType := WalletTypeWorking\<rparr> else req))
        = Inr obj"
    and b: "req_Body r = Some obj"
    unfolding Wallet_Create_parts by (auto dest!: post_requests)
  have "map_of obj ''wallet_type''
          = Some (JStr (cw_WalletType
               (if cw_WalletType req = [] then req\<lparr>cw_WalletType := WalletTypeWorking\<rparr> else req)))"
    by (rule marshal_wallet_type [OF _ m]) (simp add: WalletTypeWorking_def)
  then show "\<exists>obj. req_Body r = Some obj
            \<and> map_of obj ''wallet_type''
                = Some (JStr (if cw_WalletType req = [] then ''WORKING'' else cw_WalletType req))"
    using b by (auto simp: WalletTypeWorking_def)
qed (simp_all add: Wallet_Create_parts WalletTypeWorking_def)

theorem Wallet_Create_default_counterexample:
  "cw_WalletType operationsWallet = []
   \<and> cw_WalletType (fst (snd (Wallet_Create (testServer (always (Responded 200 []))) acceptAny
                                 testClient operationsWallet emptyWorld))) = ''WORKING''"
  by (simp add: Wallet_Create_def Let_def split_beta operationsWallet_def WalletTypeWorking_def)

theorem Wallet_Create_default_witness:
  "fst (snd (Wallet_Create (testServer (always (Responded 200 []))) acceptAny testClient
               operationsWallet emptyWorld))
     = operationsWallet\<lparr>cw_WalletType := ''WORKING''\<rparr>
   \<and> (\<exists>obj. req_Body (hd (requestsSent emptyWorld
                 (snd (snd (Wallet_Create (testServer (always (Responded 200 []))) acceptAny
                              testClient operationsWallet emptyWorld))))) = Some obj
          \<and> map_of obj ''wallet_type'' = Some (JStr ''WORKING''))"
proof -
  let ?rs = "requestsSent emptyWorld
                 (snd (snd (Wallet_Create (testServer (always (Responded 200 []))) acceptAny
                              testClient operationsWallet emptyWorld)))"
  have "length ?rs = 1"
    by (simp add: Wallet_Create_def split_beta post_def doRequest_def marshalBody_def
        operationsWallet_def attempts.simps attemptOnce_def Let_def testServer_def always_def
        testClient_def emptyWorld_def logf_def requestsSent_def acceptAny_def)
  then have m: "hd ?rs \<in> set ?rs" by (cases ?rs) simp_all
  with Wallet_Create_default [of "testServer (always (Responded 200 []))" acceptAny testClient
         operationsWallet emptyWorld]
  show ?thesis by (simp add: operationsWallet_def)
qed

lemma marshal_stk_fields:
  assumes "json_Marshal (STKPushBody b) = Inr obj"
  shows "map_of obj ''method'' = Some (JStr (sb_Method b))"
    and "map_of obj ''currency'' = Some (JStr (sb_Currency b))"
    and "map_of obj ''public_key''
           = (if sb_PublicKey b = [] then None else Some (JStr (sb_PublicKey b)))"
  using assms
  by (cases "sb_Amount b";
      auto simp: strField_def strFieldOmitEmpty_def boolFieldOmitEmpty_def)+

text \<open>
  Claim C10. Every request \<open>MPesaSTKPush\<close> sends has a body whose \<^verbatim>\<open>method\<close> field is
  \<^verbatim>\<open>M-PESA\<close> and whose \<^verbatim>\<open>currency\<close> field is \<^verbatim>\<open>KES\<close>, whatever the caller's request
  holds; its \<^verbatim>\<open>public_key\<close> field is the client's publishable key (the field is tagged
  \<^verbatim>\<open>omitempty\<close>, so a client without a publishable key sends no such field, which reads
  back as the empty key).
\<close>

theorem MPesaSTKPush_fixed_fields:
  "\<forall>r \<in> set (requestsSent w (snd (Collection_MPesaSTKPush E dec c req w))).
     \<exists>obj. req_Body r = Some obj
        \<and> map_of obj ''method'' = Some (JStr ''M-PESA'')
        \<and> map_of obj ''currency'' = Some (JStr ''KES'')
        \<and> map_of obj ''public_key''
            = (if publishableKey c = [] then None else Some (JStr (publishableKey c)))
        \<and> fieldString obj ''public_key'' = publishableKey c"
proof
  fix r assume "r \<in> set (requestsSent w (snd (Collection_MPesaSTKPush E dec c req w)))"
  then obtain obj where
    m: "json_Marshal (STKPushBody
          \<lparr>sb_PublicKey = publishableKey c, sb_PhoneNumber = stk_PhoneNumber req,
           sb_Amount = stk_Amount req, sb_APIRef = stk_APIRef req,
           sb_Name = stk_Name req, sb_Email = stk_Email req,
           sb_WalletID = stk_WalletID req,
           sb_Method = ''M-PESA'', sb_Currency = ''KES''\<rparr>) = Inr obj"
    and b: "req_Body r = Some obj"
    unfolding Collection_MPesaSTKPush_def Let_def by (auto dest!: post_requests)
  from marshal_stk_fields [OF m] b
  show "\<exists>obj. req_Body r = Some obj
        \<and> map_of obj ''method'' = Some (JStr ''M-PESA'')
        \<and> map_of obj ''currency'' = Some (JStr ''KES'')
        \<and> map_of obj ''public_key''
            = (if publishableKey c = [] then None else Some (JStr (publishableKey c)))
        \<and> fieldString obj ''public_key'' = publishableKey c"
    by (simp add: fieldString_def)
qed

theorem MPesaSTKPush_fixed_fields_witness:
  "\<exists>obj. req_Body (hd (requestsSent emptyWorld
             (snd (Collection_MPesaSTKPush (testServer (always (Responded 200 []))) acceptAny
                     testClient stkPush emptyWorld)))) = Some obj
        \<and> map_of obj ''method'' = Some (JStr ''M-PESA'')
        \<and> map_of obj ''currency'' = Some (JStr ''KES'')
        \<and> map_of obj ''public_key'' = Some (JStr ''ISPubKey_test_abc123'')"
proof -
  let ?rs = "requestsSent emptyWorld
             (snd (Collection_MPesaSTKPush (testServer (always (Responded 200 []))) acceptAny
                     testClient stkPush emptyWorld))"
  have "length ?rs = 1"
    by (simp add: Collection_MPesaSTKPush_def post_def doRequest_def marshalBody_def
        stkPush_def attempts.simps attemptOnce_def Let_def testServer_def always_def
        testClient_def emptyWorld_def logf_def requestsSent_def acceptAny_def)
  then have m: "hd ?rs \<in> set ?rs" by (cases ?rs) simp_all
  with MPesaSTKPush_fixed_fields [of emptyWorld "testServer (always (Responded 200 []))" acceptAny
         testClient stkPush]
  show ?thesis by (auto simp: testClient_def)
qed

section \<open>Instances on the test fixtures\<close>


theorem doRequest_classification_witness:
  "fst (doRequest (testServer (always (Responded 400 ''bad request'')))
          (testClient\<lparr>maxRetries := 3\<rparr>) listWallets emptyWorld)
     = Inl (APIErr \<lparr>HTTPStatusCode = 400, Code = [], Message = ''bad request'',
                     Detail = [], Errors = Map.empty, RequestID = []\<rparr>)
   \<and> length (requestsSent emptyWorld
        (snd (doRequest (testServer (always (Responded 400 ''bad request'')))
               (testClient\<lparr>maxRetries := 3\<rparr>) listWallets emptyWorld))) = 1
   \<and> (\<exists>v. fst (doRequest
                 (testServer (inOrder [Responded 429 ''rate limited'', Responded 200 ''ok'']))
                 (testClient\<lparr>maxRetries := 3\<rparr>) listWallets emptyWorld) = Inr v)
   \<and> length (requestsSent emptyWorld
        (snd (doRequest (testServer (inOrder [Responded 429 ''rate limited'', Responded 200 ''ok'']))
               (testClient\<lparr>maxRetries := 3\<rparr>) listWallets emptyWorld))) = 2"
  using
    doRequest_classification
      [of 0 "testClient\<lparr>maxRetries := 3\<rparr>" "testServer (always (Responded 400 ''bad request''))"
          listWallets "baseURL testClient @ path listWallets" emptyWorld None 400 "''bad request''"
          None "[]"]
    doRequest_classification
      [of 0 "testClient\<lparr>maxRetries := 3\<rparr>"
          "testServer (inOrder [Responded 429 ''rate limited'', Responded 200 ''ok''])"
          listWallets "baseURL testClient @ path listWallets" emptyWorld None 429 "''rate limited''"
          None "''ok''"]
  by (simp add: testServer_def always_def inOrder_def testClient_def listWallets_def
        marshalBody_def newAPIError_def notJSON_def emptyWorld_def acceptAny_def)

theorem doRequest_authorization_header_witness:
  "length (requestsSent emptyWorld
      (snd (doRequest (testServer (always (Responded 200 []))) testClient listWallets emptyWorld))) = 1
   \<and> req_Header (hd (requestsSent emptyWorld
        (snd (doRequest (testServer (always (Responded 200 []))) testClient listWallets emptyWorld))))
        headerAuthorization = Some ''Bearer ISSecretKey_test_secret''
   \<and> length (requestsSent emptyWorld
        (snd (postPublic (testServer (always (Responded 200 []))) testClient ''/checkout/'' None
                (Some acceptAny) emptyWorld))) = 1
   \<and> req_Header (hd (requestsSent emptyWorld
        (snd (postPublic (testServer (always (Responded 200 []))) testClient ''/checkout/'' None
                (Some acceptAny) emptyWorld))))
        headerAuthorization = None"
proof -
  let ?E = "testServer (always (Responded 200 []))"
  let ?rs = "requestsSent emptyWorld (snd (doRequest ?E testClient listWallets emptyWorld))"
  let ?ps = "requestsSent emptyWorld
               (snd (postPublic ?E testClient ''/checkout/'' None (Some acceptAny) emptyWorld))"
  have l1: "length ?rs = 1"
    by (simp add: doRequest_def marshalBody_def listWallets_def
        attempts.simps attemptOnce_def Let_def testServer_def always_def testClient_def
        emptyWorld_def logf_def requestsSent_def acceptAny_def)
  have l2: "length ?ps = 1"
    by (simp add: postPublic_def doRequest_def marshalBody_def
        attempts.simps attemptOnce_def Let_def testServer_def always_def testClient_def
        emptyWorld_def logf_def requestsSent_def acceptAny_def)
  from l1 have m1: "hd ?rs \<in> set ?rs" by (cases ?rs) simp_all
  from l2 have m2: "hd ?ps \<in> set ?ps" by (cases ?ps) simp_all
  from doRequest_authorization_header
         [of emptyWorld ?E testClient listWallets "''/checkout/''" None "Some acceptAny"]
       m1 m2 l1 l2
  show ?thesis by (simp add: testClient_def listWallets_def)
qed


theorem doRequest_unparsed_error_body_witness:
  "fst (doRequest (testServer (always (Responded 400 ''plain text error''))) testClient listWallets
          emptyWorld)
     = Inl (APIErr \<lparr>HTTPStatusCode = 400, Code = [], Message = ''plain text error'',
                     Detail = [], Errors = Map.empty, RequestID = []\<rparr>)
   \<and> requestsSent emptyWorld
        (snd (doRequest (testServer (always (Responded 400 ''plain text error''))) testClient
                listWallets emptyWorld)) \<noteq> []
   \<and> snd (unmarshalAPIError (testServer (always (Responded 400 ''plain text error'')))
            ''plain text error'')"
proof -
  let ?E = "testServer (always (Responded 400 ''plain text error''))"
  let ?e = "\<lparr>HTTPStatusCode = 400, Code = [], Message = ''plain text error'',
                     Detail = [], Errors = Map.empty, RequestID = []\<rparr>"
  have r: "fst (doRequest ?E testClient listWallets emptyWorld) = Inl (APIErr ?e)"
    by (simp add: doRequest_def marshalBody_def listWallets_def
        attempts.simps attemptOnce_def Let_def testServer_def always_def testClient_def
        emptyWorld_def logf_def newAPIError_def notJSON_def)
  from doRequest_unparsed_error_body [of ?E testClient listWallets emptyWorld ?e] r
  show ?thesis by (simp add: testServer_def notJSON_def)
qed

end
